theory Spec2Isabelle
  imports Complex_Main "HOL-Library.AList"
begin

section \<open>JavaScript values\<close>

text \<open>
  The SDK is untyped JavaScript: payloads, configuration chunks and bet parameters are
  arbitrary values whose truthiness, \<^verbatim>\<open>typeof\<close> and own properties the code inspects.
  The values modelled are the ones structured cloning carries through \<^verbatim>\<open>postMessage\<close>:
  \<^verbatim>\<open>undefined\<close>, \<^verbatim>\<open>null\<close>, booleans, numbers, strings, \<^verbatim>\<open>Error\<close> instances (of the
  class \<^verbatim>\<open>Error\<close> itself, with their message), arrays (of elements, without holes or
  named properties) and plain data objects (a property list; the first binding of a key
  is the property's value). A number is \<^verbatim>\<open>NaN\<close>, one of the two infinities or a finite
  number. The SDK does no arithmetic: it compares a number with zero, tests its
  truthiness and prints it. A finite number is therefore given by its value, a
  rational, together with the string that the engine's number-to-string conversion
  yields for it (\<^verbatim>\<open>5\<close>, \<^verbatim>\<open>0.5\<close>, \<^verbatim>\<open>1e+21\<close>); that string is part of the data and is
  never recomputed here, so what is proved holds whatever the engine prints.
\<close>

datatype jsnum = Fin rat string | NaN | PosInf | NegInf

text \<open>An exception thrown by the engine while a handler runs.\<close>

datatype js_exception = TypeError

datatype jsval =
    JUndefined
  | JNull
  | JBool bool
  | JNum jsnum
  | JStr string
  | JErr string
  | JArr "jsval list"
  | JObj "(string \<times> jsval) list"

type_synonym jsobj = "(string \<times> jsval) list"

text \<open>\<^verbatim>\<open>ToBoolean\<close>: what \<^verbatim>\<open>if (v)\<close>, \<^verbatim>\<open>!v\<close>, \<^verbatim>\<open>a && b\<close> and \<^verbatim>\<open>a || b\<close> test.\<close>

fun truthy :: "jsval \<Rightarrow> bool" where
  "truthy JUndefined = False"
| "truthy JNull = False"
| "truthy (JBool b) = b"
| "truthy (JNum n) = (case n of Fin q s \<Rightarrow> q \<noteq> 0 | NaN \<Rightarrow> False | _ \<Rightarrow> True)"
| "truthy (JStr s) = (s \<noteq> [])"
| "truthy (JErr m) = True"
| "truthy (JArr xs) = True"
| "truthy (JObj ps) = True"

text \<open>\<^verbatim>\<open>a || b\<close> on values.\<close>

definition js_or :: "jsval \<Rightarrow> jsval \<Rightarrow> jsval" where
  "js_or a b = (if truthy a then a else b)"

text \<open>\<^verbatim>\<open>typeof v === 'object'\<close> (true of \<^verbatim>\<open>null\<close>) and \<^verbatim>\<open>typeof v === 'number'\<close>.\<close>

fun typeof_object :: "jsval \<Rightarrow> bool" where
  "typeof_object JNull = True"
| "typeof_object (JErr m) = True"
| "typeof_object (JArr xs) = True"
| "typeof_object (JObj ps) = True"
| "typeof_object v = False"

fun typeof_number :: "jsval \<Rightarrow> bool" where
  "typeof_number (JNum n) = True"
| "typeof_number v = False"

fun typeof_string :: "jsval \<Rightarrow> bool" where
  "typeof_string (JStr s) = True"
| "typeof_string v = False"

text \<open>\<^verbatim>\<open>v instanceof Error\<close>.\<close>

fun instanceof_Error :: "jsval \<Rightarrow> bool" where
  "instanceof_Error (JErr m) = True"
| "instanceof_Error v = False"

text \<open>\<^verbatim>\<open>n <= 0\<close> on numbers: every comparison with \<^verbatim>\<open>NaN\<close> is false.\<close>

fun num_le_zero :: "jsnum \<Rightarrow> bool" where
  "num_le_zero (Fin q s) = (q \<le> 0)"
| "num_le_zero NaN = False"
| "num_le_zero PosInf = False"
| "num_le_zero NegInf = True"

fun num_gt_zero :: "jsnum \<Rightarrow> bool" where
  "num_gt_zero (Fin q s) = (0 < q)"
| "num_gt_zero NaN = False"
| "num_gt_zero PosInf = True"
| "num_gt_zero NegInf = False"

text \<open>Reading a property of a plain object: \<^verbatim>\<open>undefined\<close> when the key is absent.\<close>

definition lookup :: "jsobj \<Rightarrow> string \<Rightarrow> jsval" where
  "lookup ps k = (case map_of ps k of None \<Rightarrow> JUndefined | Some v \<Rightarrow> v)"

text \<open>
  \<^verbatim>\<open>v?.k\<close>, and \<^verbatim>\<open>v.k\<close> where the source has made sure that \<^verbatim>\<open>v\<close> is neither
  \<^verbatim>\<open>null\<close> nor \<^verbatim>\<open>undefined\<close>, for the data properties the source reads (none of them is
  a built-in of strings or arrays; an Error instance has its \<^verbatim>\<open>message\<close>).
\<close>

fun js_get :: "jsval \<Rightarrow> string \<Rightarrow> jsval" where
  "js_get (JObj ps) k = lookup ps k"
| "js_get (JErr m) k = (if k = ''message'' then JStr m else JUndefined)"
| "js_get v k = JUndefined"

text \<open>\<^verbatim>\<open>v === null || v === undefined\<close>: reading a property of such a value throws.\<close>

fun nullish :: "jsval \<Rightarrow> bool" where
  "nullish JUndefined = True"
| "nullish JNull = True"
| "nullish v = False"

text \<open>
  Decimal digits of a natural number: the property key of an array index or of a
  character position.
\<close>

fun dec_of_nat :: "nat \<Rightarrow> string" where
  "dec_of_nat n =
     (if n < 10 then [char_of (48 + n)]
      else dec_of_nat (n div 10) @ [char_of (48 + n mod 10)])"

declare dec_of_nat.simps [simp del]

fun indexed :: "nat \<Rightarrow> jsval list \<Rightarrow> jsobj" where
  "indexed i [] = []"
| "indexed i (x # xs) = (dec_of_nat i, x) # indexed (Suc i) xs"

text \<open>
  The own enumerable properties an object spread \<^verbatim>\<open>{...v}\<close> copies: the properties
  of a plain object, the indexed elements of an array or characters of a string,
  nothing for the other values.
\<close>

fun own_enumerable :: "jsval \<Rightarrow> jsobj" where
  "own_enumerable (JObj ps) = ps"
| "own_enumerable (JArr xs) = indexed 0 xs"
| "own_enumerable (JStr s) = indexed 0 (map (\<lambda>c. JStr [c]) s)"
| "own_enumerable v = []"

text \<open>
  \<^verbatim>\<open>v.hasOwnProperty(k)\<close>, as the code calls it on a payload: the method is looked up
  on the value. A plain object that has an own property named \<^verbatim>\<open>hasOwnProperty\<close> shadows
  the inherited method with a data value (structured cloning carries no functions), and
  the call throws. Otherwise the own properties are the object's data properties, the
  \<^verbatim>\<open>message\<close> of an Error, the indices and the \<^verbatim>\<open>length\<close> of an array or string.
\<close>

fun hasOwnProperty :: "jsval \<Rightarrow> string \<Rightarrow> js_exception + bool" where
  "hasOwnProperty (JObj ps) k =
     (if ''hasOwnProperty'' \<in> fst ` set ps then Inl TypeError else Inr (k \<in> fst ` set ps))"
| "hasOwnProperty (JErr m) k = Inr (k = ''message'')"
| "hasOwnProperty (JArr xs) k = Inr (k \<in> fst ` set (indexed 0 xs) \<or> k = ''length'')"
| "hasOwnProperty (JStr s) k =
     Inr (k \<in> fst ` set (indexed 0 (map (\<lambda>c. JStr [c]) s)) \<or> k = ''length'')"
| "hasOwnProperty JUndefined k = Inl TypeError"
| "hasOwnProperty JNull k = Inl TypeError"
| "hasOwnProperty v k = Inr False"

text \<open>\<^verbatim>\<open>String(n)\<close> for a number.\<close>

fun num_String :: "jsnum \<Rightarrow> string" where
  "num_String (Fin q s) = s"
| "num_String NaN = ''NaN''"
| "num_String PosInf = ''Infinity''"
| "num_String NegInf = ''-Infinity''"

fun join_comma :: "string list \<Rightarrow> string" where
  "join_comma [] = []"
| "join_comma [s] = s"
| "join_comma (s # t # ss) = s @ '','' @ join_comma (t # ss)"

text \<open>Results in order, up to the first exception.\<close>

fun sequence :: "(js_exception + 'a) list \<Rightarrow> js_exception + 'a list" where
  "sequence [] = Inr []"
| "sequence (Inl e # rs) = Inl e"
| "sequence (Inr v # rs) = (case sequence rs of Inl e \<Rightarrow> Inl e | Inr vs \<Rightarrow> Inr (v # vs))"

text \<open>
  \<^verbatim>\<open>String(v)\<close>, which is also what a template literal applies to a value. A plain
  object is converted through its \<^verbatim>\<open>toString\<close>: the inherited one yields
  \<^verbatim>\<open>[object Object]\<close>; an own property of that name is a data value, not callable, the
  inherited \<^verbatim>\<open>valueOf\<close> (or an own data property of that name) yields no primitive
  either, and the conversion throws. An array joins the strings of its elements with
  commas, \<^verbatim>\<open>null\<close> and \<^verbatim>\<open>undefined\<close> elements counting as the empty string, and throws
  where an element does. An Error prints as \<^verbatim>\<open>Error: message\<close> (\<^verbatim>\<open>Error\<close> alone when the
  message is empty).
\<close>

fun js_String :: "jsval \<Rightarrow> js_exception + string" where
  "js_String JUndefined = Inr ''undefined''"
| "js_String JNull = Inr ''null''"
| "js_String (JBool b) = Inr (if b then ''true'' else ''false'')"
| "js_String (JNum n) = Inr (num_String n)"
| "js_String (JStr s) = Inr s"
| "js_String (JErr m) = Inr (if m = [] then ''Error'' else ''Error: '' @ m)"
| "js_String (JArr xs) =
     map_sum id join_comma
       (sequence (map (\<lambda>x. if nullish x then Inr [] else js_String x) xs))"
| "js_String (JObj ps) =
     (if ''toString'' \<in> fst ` set ps then Inl TypeError else Inr ''[object Object]'')"

text \<open>\<^verbatim>\<open>{...a, ...b}\<close>: the properties of \<^verbatim>\<open>a\<close>, overwritten or extended by those of \<^verbatim>\<open>b\<close>.\<close>

definition spread2 :: "jsobj \<Rightarrow> jsobj \<Rightarrow> jsobj" where
  "spread2 a b = AList.merge a b"

text \<open>\<^verbatim>\<open>o.k = v\<close> on a plain object.\<close>

definition assign :: "jsobj \<Rightarrow> string \<Rightarrow> jsval \<Rightarrow> jsobj" where
  "assign ps k v = AList.update k v ps"

text \<open>\<^verbatim>\<open>if (c) o.k = v;\<close> on a plain object.\<close>

definition assign_if :: "bool \<Rightarrow> jsobj \<Rightarrow> string \<Rightarrow> jsval \<Rightarrow> jsobj" where
  "assign_if c ps k v = (if c then assign ps k v else ps)"

text \<open>\<^verbatim>\<open>s.includes(t)\<close>, \<^verbatim>\<open>s.endsWith(t)\<close> and \<^verbatim>\<open>s.startsWith(t)\<close> on strings.\<close>

fun startsWith :: "string \<Rightarrow> string \<Rightarrow> bool" where
  "startsWith s [] = True"
| "startsWith [] (c # t) = False"
| "startsWith (d # s) (c # t) = (d = c \<and> startsWith s t)"

fun str_includes :: "string \<Rightarrow> string \<Rightarrow> bool" where
  "str_includes [] t = (t = [])"
| "str_includes (c # s) t = (startsWith (c # s) t \<or> str_includes s t)"

definition endsWith :: "string \<Rightarrow> string \<Rightarrow> bool" where
  "endsWith s t = startsWith (rev s) (rev t)"

section \<open>The core SDK instance\<close>

text \<open>
  A Deferred is an object identity (a number, fresh at each \<^verbatim>\<open>createDeferred()\<close>);
  the calls of its \<^verbatim>\<open>resolve\<close> and \<^verbatim>\<open>reject\<close> are logged in the order they happen.
\<close>

datatype settlement = Resolve jsval | Reject jsval

text \<open>
  The state of \<^verbatim>\<open>ArcaidSDKInstanceImpl\<close> with its modules and the part of the browser it
  acts on: whether a parent window exists, the messages posted to it (with their target
  origin), the timers scheduled by \<^verbatim>\<open>setTimeout\<close> (message id, request type, delay), the
  settlement calls made on Deferreds, whether the ready promise's resolver was called,
  the Multiplayer listener registries (callbacks by identity, sets in insertion order)
  and the callback invocations made so far.
\<close>

record sdk =
  internalConfig :: jsobj
  authConfig :: jsobj
  pendingRequests :: "string \<rightharpoonup> nat"
  nextDeferred :: nat
  settled :: "(nat \<times> settlement) list"
  hasParent :: bool
  posted :: "(jsobj \<times> jsval) list"
  timers :: "(string \<times> string \<times> nat) list"
  readyResolved :: bool
  onRoomUpdateListeners :: "nat list"
  onRoomMessageListeners :: "string \<rightharpoonup> nat list"
  onGameStartedListeners :: "nat list"
  onGameFinishedListeners :: "nat list"
  onRoomErrorListeners :: "nat list"
  invoked :: "(nat \<times> jsval) list"

text \<open>\<^verbatim>\<open>_checkAndResolveReady\<close>: the readiness test reads the session token only.\<close>

definition checkAndResolveReady :: "sdk \<Rightarrow> sdk" where
  "checkAndResolveReady s =
     (if truthy (JObj (internalConfig s))
         \<and> truthy (lookup (internalConfig s) ''userSession'')
         \<and> truthy (js_get (lookup (internalConfig s) ''userSession'') ''sessionToken'')
      then s\<lparr>readyResolved := True\<rparr>
      else s)"

text \<open>
  The constructor, for a configuration object \<^verbatim>\<open>initialConfig\<close> in a window that has
  a parent or not: empty request table, \<^verbatim>\<open>platformOrigin\<close> defaulted to \<^verbatim>\<open>'*'\<close>, modules
  with empty registries, the ready promise created pending and checked once.
\<close>

definition ArcaidSDKInstanceImpl :: "jsobj \<Rightarrow> bool \<Rightarrow> sdk" where
  "ArcaidSDKInstanceImpl initialConfig parent =
     (let cfg = (if \<not> truthy (lookup initialConfig ''platformOrigin'')
                 then assign initialConfig ''platformOrigin'' (JStr ''*'')
                 else initialConfig)
      in checkAndResolveReady
           \<lparr>internalConfig = cfg, authConfig = cfg, pendingRequests = Map.empty,
            nextDeferred = 0, settled = [], hasParent = parent, posted = [], timers = [],
            readyResolved = False, onRoomUpdateListeners = [],
            onRoomMessageListeners = Map.empty, onGameStartedListeners = [],
            onGameFinishedListeners = [], onRoomErrorListeners = [], invoked = []\<rparr>)"

text \<open>
  \<^verbatim>\<open>_updatePlatformConfig\<close>: a shallow merge of the chunk into the configuration, pushed
  to the Auth module, then the readiness check on the merged configuration.
\<close>

definition updatePlatformConfig :: "sdk \<Rightarrow> jsval \<Rightarrow> sdk" where
  "updatePlatformConfig s updatedConfigChunk =
     (let cfg = spread2 (internalConfig s) (own_enumerable updatedConfigChunk)
      in checkAndResolveReady (s\<lparr>internalConfig := cfg, authConfig := cfg\<rparr>))"

section \<open>The Transport Bridge\<close>

text \<open>
  \<^verbatim>\<open>requestParent(type, payload, timeoutMs)\<close>, for the identifier that
  \<^verbatim>\<open>generateMessageId()\<close> returned (it depends on the clock and the random generator,
  so it is an input). The result is the Deferred whose promise is returned, and the
  new state.
\<close>

definition requestParent :: "sdk \<Rightarrow> string \<Rightarrow> string \<Rightarrow> jsval \<Rightarrow> nat \<Rightarrow> nat \<times> sdk" where
  "requestParent s messageId rtype payload timeoutMs =
     (let gameId = lookup (internalConfig s) ''gameId'';
          requestMessage =
            [(''source'', JStr ''ARCAID_SDK''), (''type'', JStr rtype),
             (''messageId'', JStr messageId), (''gameId'', js_or gameId (JStr [])),
             (''payload'', payload)];
          deferred = nextDeferred s;
          s1 = s\<lparr>nextDeferred := Suc deferred,
                 pendingRequests := (pendingRequests s)(messageId \<mapsto> deferred)\<rparr>;
          targetOrigin = js_or (lookup (internalConfig s) ''platformOrigin'') (JStr ''*'')
      in if hasParent s
         then (deferred,
               s1\<lparr>posted := posted s1 @ [(requestMessage, targetOrigin)],
                  timers := timers s1 @ [(messageId, rtype, timeoutMs)]\<rparr>)
         else (deferred,
               s1\<lparr>settled := settled s1 @ [(deferred, Reject (JErr ''No parent window.''))],
                  pendingRequests := (pendingRequests s1)(messageId := None)\<rparr>))"

text \<open>The callback that \<^verbatim>\<open>requestParent\<close> hands to \<^verbatim>\<open>setTimeout\<close>.\<close>

definition timeoutCallback :: "sdk \<Rightarrow> string \<Rightarrow> string \<Rightarrow> sdk" where
  "timeoutCallback s messageId rtype =
     (case pendingRequests s messageId of
        None \<Rightarrow> s
      | Some deferred \<Rightarrow>
          s\<lparr>settled := settled s @
                [(deferred,
                  Reject (JErr (''Request timed out for '' @ rtype @ '': '' @ messageId)))],
            pendingRequests := (pendingRequests s)(messageId := None)\<rparr>)"

text \<open>
  \<^verbatim>\<open>this.pendingRequests.get(v)\<close> for an arbitrary value: the keys of the table are
  strings, so only a string finds an entry.
\<close>

fun pendingGet :: "sdk \<Rightarrow> jsval \<Rightarrow> nat option" where
  "pendingGet s (JStr k) = pendingRequests s k"
| "pendingGet s v = None"

fun pendingDelete :: "sdk \<Rightarrow> jsval \<Rightarrow> sdk" where
  "pendingDelete s (JStr k) = s\<lparr>pendingRequests := (pendingRequests s)(k := None)\<rparr>"
| "pendingDelete s v = s"

text \<open>
  \<^verbatim>\<open>data.type.includes("ERROR") || data.type.endsWith("_FAILED") ||
  data.type.endsWith("_ERROR_RESPONSE")\<close>. A string has both methods; an array has
  \<^verbatim>\<open>includes\<close> (membership) and no \<^verbatim>\<open>endsWith\<close>; any other value has neither, and the
  call throws.
\<close>

fun typeSignalsError :: "jsval \<Rightarrow> js_exception + bool" where
  "typeSignalsError (JStr t) =
     Inr (str_includes t ''ERROR'' \<or> endsWith t ''_FAILED'' \<or> endsWith t ''_ERROR_RESPONSE'')"
| "typeSignalsError (JArr xs) = (if JStr ''ERROR'' \<in> set xs then Inr True else Inl TypeError)"
| "typeSignalsError v = Inl TypeError"

text \<open>
  \<^verbatim>\<open>payload && typeof payload === 'object' && payload.hasOwnProperty('error') &&
  payload.error !== undefined && payload.error !== null\<close>.
\<close>

definition payloadHasError :: "jsval \<Rightarrow> js_exception + bool" where
  "payloadHasError payload =
     (if truthy payload \<and> typeof_object payload
      then (case hasOwnProperty payload ''error'' of
              Inl e \<Rightarrow> Inl e
            | Inr own \<Rightarrow>
                Inr (own \<and> js_get payload ''error'' \<noteq> JUndefined
                         \<and> js_get payload ''error'' \<noteq> JNull))
      else Inr False)"

text \<open>\<^verbatim>\<open>v instanceof Error ? v : new Error(String(v))\<close>.\<close>

definition toError :: "jsval \<Rightarrow> js_exception + jsval" where
  "toError v = (if instanceof_Error v then Inr v else map_sum id JErr (js_String v))"

text \<open>The message of the Error built in the type-name branch.\<close>

definition errorMessage :: "jsval \<Rightarrow> jsval \<Rightarrow> js_exception + string" where
  "errorMessage payload mtype =
     (if truthy payload \<and> typeof_object payload \<and> truthy (js_get payload ''message'')
      then js_String (js_get payload ''message'')
      else if typeof_string payload \<and> truthy payload then js_String payload
      else map_sum id (\<lambda>t. ''Platform operation failed with type '' @ t) (js_String mtype))"

text \<open>
  \<^verbatim>\<open>_resolvePendingRequest(data)\<close>: the settlement it makes, if any, and whether it
  handled the message. The own-property test, the conversions to string and the type
  test can throw; each is evaluated before \<^verbatim>\<open>resolve\<close> or \<^verbatim>\<open>reject\<close> is called and
  before the entry is deleted, so an exception leaves the state as it was.
\<close>

definition resolvePendingRequest :: "sdk \<Rightarrow> jsobj \<Rightarrow> js_exception + (bool \<times> sdk)" where
  "resolvePendingRequest s data =
     (if \<not> truthy (lookup data ''messageId'') then Inr (False, s)
      else case pendingGet s (lookup data ''messageId'') of
        None \<Rightarrow> Inr (False, s)
      | Some deferred \<Rightarrow>
          (let payload = lookup data ''payload'';
               settle = (\<lambda>r. (True,
                  pendingDelete (s\<lparr>settled := settled s @ [(deferred, r)]\<rparr>)
                    (lookup data ''messageId'')))
           in case payloadHasError payload of
                Inl e \<Rightarrow> Inl e
              | Inr True \<Rightarrow>
                  map_sum id (\<lambda>err. settle (Reject err)) (toError (js_get payload ''error''))
              | Inr False \<Rightarrow>
                  (case typeSignalsError (lookup data ''type'') of
                     Inl e \<Rightarrow> Inl e
                   | Inr True \<Rightarrow>
                       map_sum id (\<lambda>m. settle (Reject (JErr m)))
                         (errorMessage payload (lookup data ''type''))
                   | Inr False \<Rightarrow> Inr (settle (Resolve payload)))))"

section \<open>The Multiplayer listener registries\<close>

text \<open>\<^verbatim>\<open>set.add(cb)\<close>, \<^verbatim>\<open>set.delete(cb)\<close> and \<^verbatim>\<open>set.forEach(cb => cb(arg))\<close>.\<close>

definition set_add :: "nat \<Rightarrow> nat list \<Rightarrow> nat list" where
  "set_add cb cbs = (if cb \<in> set cbs then cbs else cbs @ [cb])"

definition set_delete :: "nat \<Rightarrow> nat list \<Rightarrow> nat list" where
  "set_delete cb cbs = removeAll cb cbs"

definition forEach_call :: "nat list \<Rightarrow> jsval \<Rightarrow> sdk \<Rightarrow> sdk" where
  "forEach_call cbs arg s = s\<lparr>invoked := invoked s @ map (\<lambda>cb. (cb, arg)) cbs\<rparr>"

text \<open>\<^verbatim>\<open>onMessage(type, callback)\<close> and the unsubscribe closure it returns.\<close>

definition onMessage :: "sdk \<Rightarrow> string \<Rightarrow> nat \<Rightarrow> sdk" where
  "onMessage s mtype callback =
     (let reg = (case onRoomMessageListeners s mtype of
                   None \<Rightarrow> (onRoomMessageListeners s)(mtype \<mapsto> [])
                 | Some cbs \<Rightarrow> onRoomMessageListeners s)
      in case reg mtype of
           None \<Rightarrow> s\<lparr>onRoomMessageListeners := reg\<rparr>
         | Some cbs \<Rightarrow> s\<lparr>onRoomMessageListeners := reg(mtype \<mapsto> set_add callback cbs)\<rparr>)"

definition onMessage_unsubscribe :: "sdk \<Rightarrow> string \<Rightarrow> nat \<Rightarrow> sdk" where
  "onMessage_unsubscribe s mtype callback =
     (let reg = (case onRoomMessageListeners s mtype of
                   None \<Rightarrow> onRoomMessageListeners s
                 | Some cbs \<Rightarrow> (onRoomMessageListeners s)(mtype \<mapsto> set_delete callback cbs))
      in s\<lparr>onRoomMessageListeners :=
             (case reg mtype of
                None \<Rightarrow> reg
              | Some cbs \<Rightarrow> if length cbs = 0 then reg(mtype := None) else reg)\<rparr>)"

text \<open>
  \<^verbatim>\<open>this.onRoomMessageListeners.get(v)\<close> for an arbitrary value: the registry is keyed
  by strings, so only a string finds a listener set.
\<close>

fun listenersGet :: "sdk \<Rightarrow> jsval \<Rightarrow> nat list option" where
  "listenersGet s (JStr k) = onRoomMessageListeners s k"
| "listenersGet s v = None"

text \<open>
  \<^verbatim>\<open>MultiplayerModule.handlePlatformMessage(data)\<close>. Callbacks are the game's code:
  their invocations are logged, in order, with the argument each receives.
\<close>

definition roomMessageEvent :: "sdk \<Rightarrow> jsobj \<Rightarrow> sdk" where
  "roomMessageEvent s data =
     (if truthy (lookup data ''payload'')
         \<and> js_get (lookup data ''payload'') ''messageType'' \<noteq> JUndefined
      then
        (let messageType = js_get (lookup data ''payload'') ''messageType'';
             messageData = js_get (lookup data ''payload'') ''messageData'';
             s1 = (case listenersGet s messageType of
                     None \<Rightarrow> s
                   | Some cbs \<Rightarrow> forEach_call cbs messageData s)
         in case listenersGet s1 (JStr ''*'') of
              None \<Rightarrow> s1
            | Some cbs \<Rightarrow>
                forEach_call cbs (JObj [(''type'', messageType), (''data'', messageData)]) s1)
      else s)"

definition handlePlatformMessage :: "sdk \<Rightarrow> jsobj \<Rightarrow> sdk" where
  "handlePlatformMessage s data =
     (if truthy (lookup data ''messageId'') \<and> pendingGet s (lookup data ''messageId'') \<noteq> None
      then s
      else if lookup data ''type'' = JStr ''MULTIPLAYER_ROOM_UPDATE_EVENT''
      then forEach_call (onRoomUpdateListeners s) (lookup data ''payload'') s
      else if lookup data ''type'' = JStr ''MULTIPLAYER_GAME_STARTED_EVENT''
      then forEach_call (onGameStartedListeners s) (lookup data ''payload'') s
      else if lookup data ''type'' = JStr ''MULTIPLAYER_GAME_FINISHED_EVENT''
      then forEach_call (onGameFinishedListeners s) (lookup data ''payload'') s
      else if lookup data ''type'' = JStr ''MULTIPLAYER_ROOM_ERROR_EVENT''
      then forEach_call (onRoomErrorListeners s) (lookup data ''payload'') s
      else if lookup data ''type'' = JStr ''MULTIPLAYER_ROOM_MESSAGE_EVENT''
      then roomMessageEvent s data
      else s)"

section \<open>Routing of inbound messages\<close>

text \<open>
  \<^verbatim>\<open>data.type && data.type.startsWith("MULTIPLAYER_")\<close>: a truthy value that is not a
  string has no \<^verbatim>\<open>startsWith\<close>, and the call throws.
\<close>

fun typeIsMultiplayer :: "jsval \<Rightarrow> js_exception + bool" where
  "typeIsMultiplayer (JStr t) = Inr (t \<noteq> [] \<and> startsWith t ''MULTIPLAYER_'')"
| "typeIsMultiplayer v = (if truthy v then Inl TypeError else Inr False)"

text \<open>\<^verbatim>\<open>_handleMessageFromPlatform(data)\<close>.\<close>

definition handleMessageFromPlatform :: "sdk \<Rightarrow> jsobj \<Rightarrow> js_exception + sdk" where
  "handleMessageFromPlatform s data =
     (case resolvePendingRequest s data of
        Inl e \<Rightarrow> Inl e
      | Inr (True, s') \<Rightarrow> Inr s'
      | Inr (False, s') \<Rightarrow>
          if lookup data ''type'' = JStr ''ARCAID_UPDATE_USER_SESSION''
          then Inr (updatePlatformConfig s' (lookup data ''payload''))
          else (case typeIsMultiplayer (lookup data ''type'') of
                  Inl e \<Rightarrow> Inl e
                | Inr True \<Rightarrow> Inr (handlePlatformMessage s' data)
                | Inr False \<Rightarrow> Inr s'))"

text \<open>
  The \<^verbatim>\<open>message\<close> listener of the window, once the instance exists: the origin filter,
  the source tag, then the routing. An exception ends the handler; the state is the
  one reached before it.
\<close>

definition windowMessage :: "sdk \<Rightarrow> string \<Rightarrow> jsval \<Rightarrow> sdk" where
  "windowMessage s origin data =
     (let expectedOrigin = lookup (internalConfig s) ''platformOrigin''
      in if truthy expectedOrigin \<and> expectedOrigin \<noteq> JStr ''*'' \<and> JStr origin \<noteq> expectedOrigin
         then s
         else if truthy data \<and> js_get data ''source'' = JStr ''ARCAID_PLATFORM''
         then (case handleMessageFromPlatform s (own_enumerable data) of
                 Inl e \<Rightarrow> s
               | Inr s' \<Rightarrow> s')
         else s)"

section \<open>The Payments module\<close>

text \<open>
  What \<^verbatim>\<open>makeBet\<close> returns: a promise already rejected with a value, or a promise that
  follows the Deferred of the request it sent, through the \<^verbatim>\<open>try\<close>/\<^verbatim>\<open>catch\<close> around
  the \<^verbatim>\<open>await\<close>.
\<close>

datatype bet_promise = Rejected jsval | Awaiting nat

definition failure :: "string \<Rightarrow> jsval" where
  "failure errorMsg = JObj [(''success'', JBool False), (''error'', JStr errorMsg)]"

text \<open>\<^verbatim>\<open>typeof amount !== 'number' || amount <= 0\<close>.\<close>

fun amountInvalid :: "jsval \<Rightarrow> bool" where
  "amountInvalid (JNum n) = num_le_zero n"
| "amountInvalid v = True"

definition makeBet :: "sdk \<Rightarrow> string \<Rightarrow> jsval \<Rightarrow> jsval \<Rightarrow> jsval \<Rightarrow> bet_promise \<times> sdk" where
  "makeBet s messageId roomDocId amount reason =
     (if \<not> truthy (lookup (internalConfig s) ''gameId'')
      then (Rejected (failure
              ''Arcaid SDK (PaymentsModule): Cannot make bet. SDK not fully initialized or gameId missing.''), s)
      else if \<not> truthy roomDocId \<or> amountInvalid amount
      then (Rejected (failure
              ''Arcaid SDK (PaymentsModule): Invalid parameters for makeBet. roomId and positive amount required.''), s)
      else (let payload = JObj [(''roomDocId'', roomDocId), (''amount'', amount), (''reason'', reason)];
                (deferred, s') = requestParent s messageId ''BET_REQUEST'' payload 30000
            in (Awaiting deferred, s')))"

text \<open>
  The \<^verbatim>\<open>await\<close> inside \<^verbatim>\<open>try\<close>/\<^verbatim>\<open>catch\<close>: a resolved request is returned as it is, a
  rejected one is caught and rethrown as a structured failure. Should \<^verbatim>\<open>String(error)\<close>
  throw inside the \<^verbatim>\<open>catch\<close> block, the promise rejects with that exception, an Error
  of the engine.
\<close>

fun makeBet_continue :: "settlement \<Rightarrow> settlement" where
  "makeBet_continue (Resolve response) = Resolve response"
| "makeBet_continue (Reject error) =
     (if instanceof_Error error
      then Reject (JObj [(''success'', JBool False), (''error'', js_get error ''message'')])
      else case js_String error of
             Inr msg \<Rightarrow>
               Reject (JObj [(''success'', JBool False), (''error'', JStr msg)])
           | Inl e \<Rightarrow> Reject (JErr ''Cannot convert object to primitive value''))"

text \<open>
  The state of a Deferred's promise: the first settlement call made on it decides, later
  calls are ignored by the promise. \<^verbatim>\<open>None\<close> is a pending promise.
\<close>

definition promiseState :: "sdk \<Rightarrow> nat \<Rightarrow> settlement option" where
  "promiseState s deferred = map_of (settled s) deferred"

definition betPromiseState :: "sdk \<Rightarrow> bet_promise \<Rightarrow> settlement option" where
  "betPromiseState s p =
     (case p of
        Rejected v \<Rightarrow> Some (Reject v)
      | Awaiting deferred \<Rightarrow> map_option makeBet_continue (promiseState s deferred))"

section \<open>Runs of the core instance\<close>

text \<open>
  What can happen to an instance, in any order: a module sends a request (every module
  method goes through \<^verbatim>\<open>requestParent\<close>; the identifier is the one generated for the
  call), a scheduled timer fires (the \<^verbatim>\<open>i\<close>-th of the timers still scheduled; it runs
  once), the window receives a message from some origin, the platform calls the exposed
  \<^verbatim>\<open>_updateSdkConfig\<close>, the game places a bet, the game registers a room-message
  listener or calls the unsubscribe closure of one.
\<close>

datatype event =
    Request string string jsval nat
  | TimerFires nat
  | Message string jsval
  | UpdateSdkConfig jsval
  | Bet string jsval jsval jsval
  | Subscribe string nat
  | Unsubscribe string nat

fun step :: "sdk \<Rightarrow> event \<Rightarrow> sdk" where
  "step s (Request messageId rtype payload timeoutMs) =
     snd (requestParent s messageId rtype payload timeoutMs)"
| "step s (TimerFires i) =
     (if i < length (timers s)
      then (case timers s ! i of
              (messageId, rtype, timeoutMs) \<Rightarrow>
                timeoutCallback (s\<lparr>timers := take i (timers s) @ drop (Suc i) (timers s)\<rparr>)
                  messageId rtype)
      else s)"
| "step s (Message origin data) = windowMessage s origin data"
| "step s (UpdateSdkConfig chunk) = updatePlatformConfig s chunk"
| "step s (Bet messageId roomDocId amount reason) =
     snd (makeBet s messageId roomDocId amount reason)"
| "step s (Subscribe mtype callback) = onMessage s mtype callback"
| "step s (Unsubscribe mtype callback) = onMessage_unsubscribe s mtype callback"

definition run :: "sdk \<Rightarrow> event list \<Rightarrow> sdk" where
  "run s evs = foldl step s evs"

text \<open>How often \<^verbatim>\<open>resolve\<close> or \<^verbatim>\<open>reject\<close> of a Deferred has been called.\<close>

definition settleCount :: "sdk \<Rightarrow> nat \<Rightarrow> nat" where
  "settleCount s deferred = length (filter (\<lambda>c. fst c = deferred) (settled s))"


text \<open>Every rejection made so far was made with an Error instance.\<close>

definition rejects_errors :: "sdk \<Rightarrow> bool" where
  "rejects_errors s =
     list_all (\<lambda>c. case snd c of Reject e \<Rightarrow> instanceof_Error e | Resolve v \<Rightarrow> True)
       (settled s)"

section \<open>The loader\<close>

text \<open>
  Where the executor of the initialization promise stands: not started, suspended at
  \<^verbatim>\<open>await requestConfigFromParent()\<close>, suspended at \<^verbatim>\<open>await loadScript(...)\<close> with the
  merged configuration, resolved with the instance built from that configuration,
  rejected with an error, or ended by an exception of its \<^verbatim>\<open>catch\<close> block with the
  promise left pending.
\<close>

datatype task =
    NotStarted
  | AwaitingConfig
  | AwaitingScript jsobj
  | Fulfilled jsobj
  | Failed jsval
  | Abandoned

text \<open>
  The loader's closure variables, the fields of \<^verbatim>\<open>window.Arcaid\<close> and the part of the
  browser the loader acts on: whether the window is framed
  (\<^verbatim>\<open>window.self !== window.top\<close>), whether it has a parent
  (\<^verbatim>\<open>window.parent && window.parent !== window.self\<close>), the number of
  \<^verbatim>\<open>REQUEST_ARCAID_PLATFORM_CONFIG\<close> handshakes posted and the \<^verbatim>\<open>loadScript(src, 3)\<close>
  calls made. A promise is an identity, fresh at each \<^verbatim>\<open>new Promise\<close>.
\<close>

record loader =
  initCalled :: bool
  coreSdkPromise :: "nat option"
  sdkInitializationError :: "jsval option"
  initConfigOptions :: "jsval option"
  nextPromise :: nat
  isInIframe :: bool
  parentPresent :: bool
  configRequests :: nat
  scriptLoads :: "jsval list"
  task :: task

text \<open>The state the loader script leaves when it has run.\<close>

definition loaderScript :: "bool \<Rightarrow> bool \<Rightarrow> loader" where
  "loaderScript framed parent =
     \<lparr>initCalled = False, coreSdkPromise = None, sdkInitializationError = None,
      initConfigOptions = None, nextPromise = 0, isInIframe = framed,
      parentPresent = parent, configRequests = 0, scriptLoads = [], task = NotStarted\<rparr>"

text \<open>
  \<^verbatim>\<open>initConfigOptions?.coreSdkUrl || platformConfig.coreSdkUrl ||
  `https://cdn.arcaid.com/sdk/core/v${mergedConfig.sdkVersion || 'current'}/arcaid-core-sdk.js`\<close>:
  the template is evaluated only when both values are falsy, and evaluating it converts
  the version to a string.
\<close>

definition resolveCoreSdkUrl :: "jsval \<Rightarrow> jsval \<Rightarrow> jsobj \<Rightarrow> js_exception + jsval" where
  "resolveCoreSdkUrl initOptions platformConfig mergedConfig =
     (if truthy (js_get initOptions ''coreSdkUrl'') then Inr (js_get initOptions ''coreSdkUrl'')
      else if truthy (js_get platformConfig ''coreSdkUrl'')
      then Inr (js_get platformConfig ''coreSdkUrl'')
      else map_sum id
             (\<lambda>v. JStr (''https://cdn.arcaid.com/sdk/core/v'' @ v @ ''/arcaid-core-sdk.js''))
             (js_String (js_or (lookup mergedConfig ''sdkVersion'') (JStr ''current''))))"

text \<open>
  The configuration merge of \<^verbatim>\<open>init\<close>, from \<^verbatim>\<open>const mergedConfig = ...\<close> to
  \<^verbatim>\<open>mergedConfig.coreSdkUrl = coreSdkUrl\<close>, for the developer's options
  (\<^verbatim>\<open>devConfig || {}\<close>) and the platform's configuration. Spreading \<^verbatim>\<open>null\<close> or
  \<^verbatim>\<open>undefined\<close> copies nothing, but \<^verbatim>\<open>platformConfig.userSession\<close> throws on them.
\<close>

definition mergeConfig :: "jsval \<Rightarrow> jsval \<Rightarrow> js_exception + jsobj" where
  "mergeConfig initOptions platformConfig =
     (let merged0 = spread2 (own_enumerable initOptions) (own_enumerable platformConfig)
      in if nullish platformConfig then Inl TypeError
         else
          (let merged1 = assign_if (truthy (js_get platformConfig ''userSession''))
                           merged0 ''userSession'' (js_get platformConfig ''userSession'');
               merged2 = assign_if (truthy (js_get platformConfig ''arcaidApiBaseUrl'')
                                    \<and> \<not> truthy (js_get initOptions ''arcaidApiBaseUrl''))
                           merged1 ''arcaidApiBaseUrl''
                           (js_get platformConfig ''arcaidApiBaseUrl'');
               merged3 = assign_if (truthy (js_get platformConfig ''sdkVersion'')
                                    \<and> \<not> truthy (js_get initOptions ''sdkVersion''))
                           merged2 ''sdkVersion'' (js_get platformConfig ''sdkVersion'')
           in map_sum id (\<lambda>coreSdkUrl. assign merged3 ''coreSdkUrl'' coreSdkUrl)
                (resolveCoreSdkUrl initOptions platformConfig merged3)))"

text \<open>
  The \<^verbatim>\<open>catch\<close> of the executor: the error is stored (as it is when it is an Error, as
  an Error of its string form otherwise) and the promise rejected. Should the conversion
  throw, the executor ends there and the promise is never settled.
\<close>

definition initFailed :: "loader \<Rightarrow> jsval \<Rightarrow> loader" where
  "initFailed l error =
     (case toError error of
        Inr e \<Rightarrow> l\<lparr>sdkInitializationError := Some e, task := Failed error\<rparr>
      | Inl x \<Rightarrow> l\<lparr>task := Abandoned\<rparr>)"

text \<open>
  The executor from the merge to \<^verbatim>\<open>await loadScript(coreSdkUrl, 3)\<close>, once the platform
  configuration is known. The engine's TypeError is an Error instance. \<^verbatim>\<open>loadScript\<close>
  begins by putting its argument into a selector string: where that conversion throws,
  the call is made and its promise is rejected at once.
\<close>

definition afterConfig :: "loader \<Rightarrow> jsval \<Rightarrow> loader" where
  "afterConfig l platformConfig =
     (case initConfigOptions l of
        None \<Rightarrow> l
      | Some initOptions \<Rightarrow>
          (case mergeConfig initOptions platformConfig of
             Inl e \<Rightarrow> initFailed l (JErr ''TypeError'')
           | Inr mergedConfig \<Rightarrow>
               (let l' = l\<lparr>scriptLoads := scriptLoads l @ [lookup mergedConfig ''coreSdkUrl'']\<rparr>
                in case js_String (lookup mergedConfig ''coreSdkUrl'') of
                     Inl e \<Rightarrow> initFailed l' (JErr ''TypeError'')
                   | Inr src \<Rightarrow> l'\<lparr>task := AwaitingScript mergedConfig\<rparr>)))"

text \<open>
  \<^verbatim>\<open>requestConfigFromParent()\<close> as the executor awaits it: with a parent the request is
  posted and the executor waits for the response or the timeout; without one the
  promise resolves with the empty configuration.
\<close>

definition requestConfigFromParent :: "loader \<Rightarrow> loader" where
  "requestConfigFromParent l =
     (if parentPresent l
      then l\<lparr>configRequests := Suc (configRequests l), task := AwaitingConfig\<rparr>
      else afterConfig l (JObj []))"

text \<open>\<^verbatim>\<open>window.Arcaid.init(devConfig)\<close>: the promise it returns and the new state.\<close>

definition init :: "loader \<Rightarrow> jsval \<Rightarrow> nat \<times> loader" where
  "init l devConfig =
     (let l1 = l\<lparr>initCalled := True\<rparr>
      in case coreSdkPromise l1 of
           Some p \<Rightarrow> (p, l1)
         | None \<Rightarrow>
            (case sdkInitializationError l1 of
               Some e \<Rightarrow> (nextPromise l1, l1\<lparr>nextPromise := Suc (nextPromise l1)\<rparr>)
             | None \<Rightarrow>
                (let p = nextPromise l1;
                     l2 = l1\<lparr>initConfigOptions := Some (js_or devConfig (JObj [])),
                             nextPromise := Suc p\<rparr>;
                     l3 = (if isInIframe l2 then requestConfigFromParent l2
                           else afterConfig l2 (JObj []))
                 in (p, l3\<lparr>coreSdkPromise := Some p\<rparr>))))"

text \<open>
  What can happen to the loader, in any order: the game calls \<^verbatim>\<open>init\<close>, the parent
  answers the configuration request, the request times out, the core script loads
  (and \<^verbatim>\<open>window.ArcaidCore.initialize\<close> is a function or not) or fails for good, after
  its retries, with the error value the last \<^verbatim>\<open>onerror\<close> received (when the handler
  throws while it builds its message, the load promise is never settled and the executor
  stays suspended). An answer or a load result reaches the executor only where it is
  suspended.
\<close>

datatype loader_event =
    Init jsval
  | ConfigResponse jsval
  | ConfigTimeout
  | ScriptLoaded bool
  | ScriptFailed jsval

fun loader_step :: "loader \<Rightarrow> loader_event \<Rightarrow> nat list \<times> loader" where
  "loader_step l (Init devConfig) = (case init l devConfig of (p, l') \<Rightarrow> ([p], l'))"
| "loader_step l (ConfigResponse payload) =
     ([], if task l = AwaitingConfig then afterConfig l payload else l)"
| "loader_step l ConfigTimeout =
     ([], if task l = AwaitingConfig then afterConfig l (JObj []) else l)"
| "loader_step l (ScriptLoaded valid) =
     ([], case task l of
            AwaitingScript mergedConfig \<Rightarrow>
              if valid then l\<lparr>task := Fulfilled mergedConfig\<rparr>
              else initFailed l
                     (JErr ''ARCAID Core SDK failed to load or is invalid (initialize method not found).'')
          | _ \<Rightarrow> l)"
| "loader_step l (ScriptFailed error) =
     ([], case task l of
            AwaitingScript mergedConfig \<Rightarrow>
              (case (js_String (lookup mergedConfig ''coreSdkUrl''),
                     if truthy error then js_String (js_get error ''message'')
                     else Inr ''Unknown error'') of
                 (Inr src, Inr reason) \<Rightarrow>
                   initFailed l
                     (JErr (''Failed to load script '' @ src
                            @ '' after multiple retries. Error: '' @ reason))
               | _ \<Rightarrow> l)
          | _ \<Rightarrow> l)"

text \<open>A run of the loader: the promises the \<^verbatim>\<open>init\<close> calls returned, in order, and the final state.\<close>

fun loader_run :: "loader \<Rightarrow> loader_event list \<Rightarrow> nat list \<times> loader" where
  "loader_run l [] = ([], l)"
| "loader_run l (e # es) =
     (case loader_step l e of
        (ps, l') \<Rightarrow> (case loader_run l' es of (qs, l'') \<Rightarrow> (ps @ qs, l'')))"

text \<open>
  The bookkeeping invariant of the loader: before the first \<^verbatim>\<open>init\<close> nothing has been
  started; a handshake or a script load, once made, is not made again.
\<close>

definition loader_ok :: "loader \<Rightarrow> bool" where
  "loader_ok l \<longleftrightarrow>
     (coreSdkPromise l = None \<longrightarrow>
        task l = NotStarted \<and> configRequests l = 0 \<and> scriptLoads l = []
        \<and> sdkInitializationError l = None)
     \<and> (task l = NotStarted \<longrightarrow> configRequests l = 0 \<and> scriptLoads l = [])
     \<and> (task l = AwaitingConfig \<longrightarrow> scriptLoads l = [])
     \<and> configRequests l \<le> 1 \<and> length (scriptLoads l) \<le> 1"

section \<open>Facts about the value model\<close>

lemma map_sum_id_Inr: "map_sum id f x = Inr y \<Longrightarrow> \<exists>v. x = Inr v \<and> y = f v"
  by (cases x) auto

lemma js_get_falsy: "\<not> truthy v \<Longrightarrow> js_get v k = JUndefined"
  by (cases v) auto


lemma instanceof_Error_message: "instanceof_Error e \<Longrightarrow> \<exists>m. js_get e ''message'' = JStr m"
  by (cases e) auto

lemma lookup_assign: "lookup (assign ps k v) k' = (if k' = k then v else lookup ps k')"
  by (simp add: lookup_def assign_def update_conv')


lemma lookup_assign_if:
  "lookup (assign_if c ps k v) k' = (if c \<and> k' = k then v else lookup ps k')"
  by (simp add: assign_if_def lookup_assign)

lemma lookup_spread2:
  "lookup (spread2 a b) k = (if k \<in> fst ` set b then lookup b k else lookup a k)"
proof -
  have "k \<in> fst ` set b \<longleftrightarrow> map_of b k \<noteq> None"
    by (simp add: map_of_eq_None_iff)
  then show ?thesis
    by (auto simp: lookup_def spread2_def merge_conv' map_add_def split: option.splits)
qed



lemma dec_of_nat_nonempty: "dec_of_nat n \<noteq> []"
  by (simp add: dec_of_nat.simps[of n])



section \<open>The Readiness Gate\<close>

text \<open>
  Claim C1, as the specification states it: in every configuration state the ready
  promise is resolved if and only if the user session has a truthy login flag and a
  non-empty session token. The code does not read the login flag: an instance built
  with a session whose \<^verbatim>\<open>isLoggedIn\<close> is \<^verbatim>\<open>false\<close> and whose token is \<^verbatim>\<open>"tok"\<close> has its
  ready promise resolved by the constructor.
\<close>

theorem ready_ignores_login_flag:
  "\<not> (readyResolved (ArcaidSDKInstanceImpl
          [(''userSession'',
            JObj [(''isLoggedIn'', JBool False), (''sessionToken'', JStr ''tok'')])] True)
       \<longleftrightarrow>
         truthy (js_get (lookup (internalConfig (ArcaidSDKInstanceImpl
            [(''userSession'',
              JObj [(''isLoggedIn'', JBool False), (''sessionToken'', JStr ''tok'')])] True))
            ''userSession'') ''isLoggedIn'')
         \<and> truthy (js_get (lookup (internalConfig (ArcaidSDKInstanceImpl
            [(''userSession'',
              JObj [(''isLoggedIn'', JBool False), (''sessionToken'', JStr ''tok'')])] True))
            ''userSession'') ''sessionToken''))"
  by (simp add: ArcaidSDKInstanceImpl_def checkAndResolveReady_def lookup_def assign_def Let_def)

text \<open>
  Claim C1, amended: the readiness test is the session token alone. After construction
  the ready promise is resolved exactly when the configuration's \<^verbatim>\<open>userSession\<close> has a
  truthy \<^verbatim>\<open>sessionToken\<close>; after a session-update merge it is resolved exactly when it
  was resolved before or the merged configuration's \<^verbatim>\<open>userSession\<close> has a truthy
  \<^verbatim>\<open>sessionToken\<close>. The login flag has no part in it, and a resolved promise stays
  resolved.
\<close>

theorem ready_iff_session_token:
  "(readyResolved (ArcaidSDKInstanceImpl initialConfig parent) \<longleftrightarrow>
      truthy (js_get (lookup (internalConfig (ArcaidSDKInstanceImpl initialConfig parent))
                ''userSession'') ''sessionToken''))
   \<and> (readyResolved (updatePlatformConfig s chunk) \<longleftrightarrow>
        readyResolved s
        \<or> truthy (js_get (lookup (internalConfig (updatePlatformConfig s chunk))
                    ''userSession'') ''sessionToken''))
   \<and> internalConfig (updatePlatformConfig s chunk)
        = spread2 (internalConfig s) (own_enumerable chunk)"
  by (auto simp: ArcaidSDKInstanceImpl_def updatePlatformConfig_def checkAndResolveReady_def
      Let_def js_get_falsy)

section \<open>Requests without a parent window\<close>

text \<open>
  Claim C9: when no parent window exists, \<^verbatim>\<open>requestParent\<close> rejects the promise it returns
  at once, with the error \<^verbatim>\<open>No parent window.\<close>; when it returns, the request table has
  no entry for the generated identifier, no timer has been scheduled and nothing has
  been posted.
\<close>

theorem requestParent_without_parent:
  assumes "\<not> hasParent s"
  shows "pendingRequests (snd (requestParent s messageId rtype payload timeoutMs)) messageId = None
     \<and> timers (snd (requestParent s messageId rtype payload timeoutMs)) = timers s
     \<and> posted (snd (requestParent s messageId rtype payload timeoutMs)) = posted s
     \<and> settled (snd (requestParent s messageId rtype payload timeoutMs))
         = settled s @ [(fst (requestParent s messageId rtype payload timeoutMs),
                         Reject (JErr ''No parent window.''))]
     \<and> fst (requestParent s messageId rtype payload timeoutMs) = nextDeferred s"
  using assms by (simp add: requestParent_def Let_def)

theorem requestParent_without_parent_witness:
  "\<not> hasParent (ArcaidSDKInstanceImpl [(''gameId'', JStr ''g1'')] False)
   \<and> pendingRequests (snd (requestParent (ArcaidSDKInstanceImpl [(''gameId'', JStr ''g1'')] False)
        ''sdk-msg-1-abc'' ''LOGIN_REQUEST'' (JObj []) 30000)) ''sdk-msg-1-abc'' = None
   \<and> timers (snd (requestParent (ArcaidSDKInstanceImpl [(''gameId'', JStr ''g1'')] False)
        ''sdk-msg-1-abc'' ''LOGIN_REQUEST'' (JObj []) 30000)) = []
   \<and> settled (snd (requestParent (ArcaidSDKInstanceImpl [(''gameId'', JStr ''g1'')] False)
        ''sdk-msg-1-abc'' ''LOGIN_REQUEST'' (JObj []) 30000))
       = [(0, Reject (JErr ''No parent window.''))]"
proof -
  have h: "\<not> hasParent (ArcaidSDKInstanceImpl [(''gameId'', JStr ''g1'')] False)"
    by (simp add: ArcaidSDKInstanceImpl_def checkAndResolveReady_def Let_def)
  have i: "timers (ArcaidSDKInstanceImpl [(''gameId'', JStr ''g1'')] False) = []"
    "settled (ArcaidSDKInstanceImpl [(''gameId'', JStr ''g1'')] False) = []"
    "nextDeferred (ArcaidSDKInstanceImpl [(''gameId'', JStr ''g1'')] False) = 0"
    by (simp_all add: ArcaidSDKInstanceImpl_def checkAndResolveReady_def Let_def)
  show ?thesis
    using h i requestParent_without_parent [OF h, of "''sdk-msg-1-abc''" "''LOGIN_REQUEST''" "JObj []" 30000]
    by simp
qed

section \<open>The bet operation\<close>

text \<open>
  The validation of \<^verbatim>\<open>makeBet\<close>: without a game identifier, without a room identifier,
  with an amount that is not of type number, or with a number that compares
  \<^verbatim>\<open><= 0\<close>, the promise is rejected at once with a structured failure and the state is
  untouched: nothing is posted, no entry is registered, no timer is scheduled.
\<close>

lemma makeBet_rejects_invalid:
  assumes "\<not> truthy (lookup (internalConfig s) ''gameId'') \<or> \<not> truthy roomDocId
           \<or> \<not> typeof_number amount \<or> (\<exists>n. amount = JNum n \<and> num_le_zero n)"
  shows "\<exists>msg. makeBet s messageId roomDocId amount reason
            = (Rejected (JObj [(''success'', JBool False), (''error'', JStr msg)]), s)"
proof -
  have "amountInvalid amount \<longleftrightarrow> \<not> typeof_number amount \<or> (\<exists>n. amount = JNum n \<and> num_le_zero n)"
    by (cases amount) auto
  with assms show ?thesis
    by (auto simp: makeBet_def failure_def)
qed

text \<open>
  Claim C4 holds that a bet whose amount is not strictly positive is rejected without a
  transport request. \<^verbatim>\<open>NaN\<close> is of type number and is not strictly positive, but
  \<^verbatim>\<open>NaN <= 0\<close> is false: \<^verbatim>\<open>makeBet("room1", NaN)\<close> passes the validation, registers a
  pending entry, posts a \<^verbatim>\<open>BET_REQUEST\<close> carrying the \<^verbatim>\<open>NaN\<close> amount and schedules its
  timer.
\<close>

theorem makeBet_NaN_is_sent:
  "\<not> num_gt_zero NaN
   \<and> fst (makeBet (ArcaidSDKInstanceImpl [(''gameId'', JStr ''g1'')] True)
            ''sdk-msg-1-abc'' (JStr ''room1'') (JNum NaN) JUndefined) = Awaiting 0
   \<and> pendingRequests (snd (makeBet (ArcaidSDKInstanceImpl [(''gameId'', JStr ''g1'')] True)
            ''sdk-msg-1-abc'' (JStr ''room1'') (JNum NaN) JUndefined)) ''sdk-msg-1-abc''
       = Some 0
   \<and> posted (snd (makeBet (ArcaidSDKInstanceImpl [(''gameId'', JStr ''g1'')] True)
            ''sdk-msg-1-abc'' (JStr ''room1'') (JNum NaN) JUndefined))
       = [([(''source'', JStr ''ARCAID_SDK''), (''type'', JStr ''BET_REQUEST''),
            (''messageId'', JStr ''sdk-msg-1-abc''), (''gameId'', JStr ''g1''),
            (''payload'', JObj [(''roomDocId'', JStr ''room1''), (''amount'', JNum NaN),
                               (''reason'', JUndefined)])],
           JStr ''*'')]
   \<and> timers (snd (makeBet (ArcaidSDKInstanceImpl [(''gameId'', JStr ''g1'')] True)
            ''sdk-msg-1-abc'' (JStr ''room1'') (JNum NaN) JUndefined))
       = [(''sdk-msg-1-abc'', ''BET_REQUEST'', 30000)]"
  by (simp add: makeBet_def requestParent_def ArcaidSDKInstanceImpl_def
      checkAndResolveReady_def lookup_def assign_def js_or_def Let_def)

theorem makeBet_NaN_is_sent_witness:
  "fst (makeBet (ArcaidSDKInstanceImpl [(''gameId'', JStr ''g1'')] True)
          ''sdk-msg-1-abc'' (JStr ''room1'') (JNum NaN) JUndefined)
     \<noteq> Rejected (failure
          ''Arcaid SDK (PaymentsModule): Invalid parameters for makeBet. roomId and positive amount required.'')
   \<and> posted (snd (makeBet (ArcaidSDKInstanceImpl [(''gameId'', JStr ''g1'')] True)
          ''sdk-msg-1-abc'' (JStr ''room1'') (JNum NaN) JUndefined)) \<noteq> []"
  using makeBet_NaN_is_sent by simp

section \<open>Classification of responses\<close>















section \<open>Fan-out of room messages\<close>

lemma listenersGet_forEach_call [simp]:
  "listenersGet (forEach_call cbs a s) v = listenersGet s v"
  by (cases v) (simp_all add: forEach_call_def)



section \<open>At-most-once settlement\<close>









lemma checkAndResolveReady_table [simp]:
  "settled (checkAndResolveReady s) = settled s"
  "nextDeferred (checkAndResolveReady s) = nextDeferred s"
  "pendingRequests (checkAndResolveReady s) = pendingRequests s"
  by (simp_all add: checkAndResolveReady_def)

lemma updatePlatformConfig_table [simp]:
  "settled (updatePlatformConfig s c) = settled s"
  "nextDeferred (updatePlatformConfig s c) = nextDeferred s"
  "pendingRequests (updatePlatformConfig s c) = pendingRequests s"
  by (simp_all add: updatePlatformConfig_def Let_def)

lemma forEach_call_table [simp]:
  "settled (forEach_call cbs a s) = settled s"
  "nextDeferred (forEach_call cbs a s) = nextDeferred s"
  "pendingRequests (forEach_call cbs a s) = pendingRequests s"
  by (simp_all add: forEach_call_def)

lemma roomMessageEvent_table [simp]:
  "settled (roomMessageEvent s data) = settled s"
  "nextDeferred (roomMessageEvent s data) = nextDeferred s"
  "pendingRequests (roomMessageEvent s data) = pendingRequests s"
  by (simp_all add: roomMessageEvent_def Let_def split: option.splits)

lemma handlePlatformMessage_table [simp]:
  "settled (handlePlatformMessage s data) = settled s"
  "nextDeferred (handlePlatformMessage s data) = nextDeferred s"
  "pendingRequests (handlePlatformMessage s data) = pendingRequests s"
  by (simp_all add: handlePlatformMessage_def)

lemma onMessage_table [simp]:
  "settled (onMessage s mtype cb) = settled s"
  "nextDeferred (onMessage s mtype cb) = nextDeferred s"
  "pendingRequests (onMessage s mtype cb) = pendingRequests s"
  by (simp_all add: onMessage_def Let_def split: option.splits)

lemma onMessage_unsubscribe_table [simp]:
  "settled (onMessage_unsubscribe s mtype cb) = settled s"
  "nextDeferred (onMessage_unsubscribe s mtype cb) = nextDeferred s"
  "pendingRequests (onMessage_unsubscribe s mtype cb) = pendingRequests s"
  by (simp_all add: onMessage_unsubscribe_def Let_def)



lemma makeBet_state:
  "snd (makeBet s messageId roomDocId amount reason) = s \<or>
   (\<exists>payload. snd (makeBet s messageId roomDocId amount reason)
       = snd (requestParent s messageId ''BET_REQUEST'' payload 30000))"
proof (cases "\<not> truthy (lookup (internalConfig s) ''gameId'') \<or> \<not> truthy roomDocId
              \<or> amountInvalid amount")
  case True
  then show ?thesis by (auto simp: makeBet_def)
next
  case False
  then have "snd (makeBet s messageId roomDocId amount reason)
       = snd (requestParent s messageId ''BET_REQUEST''
               (JObj [(''roomDocId'', roomDocId), (''amount'', amount), (''reason'', reason)])
               30000)"
    by (simp add: makeBet_def Let_def split: prod.splits)
  then show ?thesis by blast
qed






lemma settleCount_append:
  "settleCount (s\<lparr>settled := settled s @ [(d, r)]\<rparr>) d' =
     settleCount s d' + (if d = d' then 1 else 0)"
  by (simp add: settleCount_def)

lemma settleCount_pendingDelete [simp]:
  "settleCount (pendingDelete s v) d = settleCount s d"
  by (cases v) (simp_all add: settleCount_def)

lemma pendingDelete_key [simp]:
  "pendingRequests (pendingDelete s (JStr k)) k = None"
  by simp





section \<open>Rejections of a bet\<close>

lemma rejects_errors_append:
  "rejects_errors (s\<lparr>settled := settled s @ [(d, r)]\<rparr>) \<longleftrightarrow>
     rejects_errors s \<and> (case r of Reject e \<Rightarrow> instanceof_Error e | Resolve v \<Rightarrow> True)"
  by (auto simp: rejects_errors_def)

lemma rejects_errors_cong:
  assumes "rejects_errors s" and "settled s' = settled s"
  shows "rejects_errors s'"
  using assms by (simp add: rejects_errors_def)

lemma rejects_errors_construct: "rejects_errors (ArcaidSDKInstanceImpl cfg parent)"
  by (simp add: rejects_errors_def ArcaidSDKInstanceImpl_def checkAndResolveReady_def Let_def)

lemma rejects_errors_requestParent:
  assumes "rejects_errors s"
  shows "rejects_errors (snd (requestParent s messageId rtype payload timeoutMs))"
  using assms by (simp add: rejects_errors_def requestParent_def Let_def)

lemma rejects_errors_timeoutCallback:
  assumes "rejects_errors s"
  shows "rejects_errors (timeoutCallback s messageId rtype)"
  using assms by (simp add: rejects_errors_def timeoutCallback_def split: option.splits)

lemma toError_is_Error: "toError v = Inr e \<Longrightarrow> instanceof_Error e"
  by (auto simp: toError_def split: if_splits dest!: map_sum_id_Inr)

lemma rejects_errors_pendingDelete [simp]:
  "rejects_errors (pendingDelete s v) = rejects_errors s"
  by (cases v) (simp_all add: rejects_errors_def)

text \<open>Each of the three settlements a response can make rejects with an Error or resolves.\<close>

lemma rejects_errors_resolvePendingRequest:
  assumes "rejects_errors s" and "resolvePendingRequest s data = Inr (b, s')"
  shows "rejects_errors s'"
proof (cases "truthy (lookup data ''messageId'')")
  case False
  with assms show ?thesis by (simp add: resolvePendingRequest_def)
next
  case True
  show ?thesis
  proof (cases "pendingGet s (lookup data ''messageId'')")
    case None
    with True assms show ?thesis by (simp add: resolvePendingRequest_def)
  next
    case (Some d)
    from assms(2) True Some have
      "\<exists>r. s' = pendingDelete (s\<lparr>settled := settled s @ [(d, r)]\<rparr>) (lookup data ''messageId'')
           \<and> (case r of Reject e \<Rightarrow> instanceof_Error e | Resolve v \<Rightarrow> True)"
      unfolding resolvePendingRequest_def Let_def
      by (auto split: sum.splits bool.splits dest!: map_sum_id_Inr toError_is_Error)
    then show ?thesis
      using assms(1) by (auto simp: rejects_errors_append)
  qed
qed

lemma rejects_errors_handleMessageFromPlatform:
  assumes "rejects_errors s" and "handleMessageFromPlatform s data = Inr s'"
  shows "rejects_errors s'"
proof (cases "resolvePendingRequest s data")
  case (Inl e)
  with assms(2) show ?thesis by (simp add: handleMessageFromPlatform_def)
next
  case (Inr r)
  obtain b s1 where r: "r = (b, s1)" by (cases r)
  have ok1: "rejects_errors s1"
    using rejects_errors_resolvePendingRequest[OF assms(1)] Inr r by simp
  show ?thesis
  proof (cases b)
    case True
    with assms(2) Inr r ok1 show ?thesis by (simp add: handleMessageFromPlatform_def)
  next
    case False
    with assms(2) Inr r have
      "s' = updatePlatformConfig s1 (lookup data ''payload'')
       \<or> s' = handlePlatformMessage s1 data \<or> s' = s1"
      by (auto simp: handleMessageFromPlatform_def split: if_splits sum.splits bool.splits)
    then show ?thesis
      using ok1 by (auto intro: rejects_errors_cong[OF ok1])
  qed
qed

lemma rejects_errors_windowMessage:
  assumes "rejects_errors s"
  shows "rejects_errors (windowMessage s origin data)"
  using assms rejects_errors_handleMessageFromPlatform[OF assms]
  by (auto simp: windowMessage_def Let_def split: sum.splits)

lemma rejects_errors_makeBet:
  assumes "rejects_errors s"
  shows "rejects_errors (snd (makeBet s messageId roomDocId amount reason))"
  using makeBet_state[of s messageId roomDocId amount reason] assms
    rejects_errors_requestParent
  by auto

lemma rejects_errors_step:
  assumes "rejects_errors s"
  shows "rejects_errors (step s e)"
proof (cases e)
  case (Request k t p ms)
  then show ?thesis using assms by (simp add: rejects_errors_requestParent)
next
  case (TimerFires i)
  have "rejects_errors (s\<lparr>timers := ts\<rparr>)" for ts
    using assms by (rule rejects_errors_cong) simp
  then show ?thesis
    using TimerFires assms by (auto simp: rejects_errors_timeoutCallback split: prod.splits)
next
  case (Message origin data)
  then show ?thesis using assms by (simp add: rejects_errors_windowMessage)
next
  case (UpdateSdkConfig c)
  then show ?thesis using assms by (auto intro: rejects_errors_cong[OF assms])
next
  case (Bet k r a re)
  then show ?thesis using assms by (simp add: rejects_errors_makeBet)
next
  case (Subscribe t cb)
  then show ?thesis using assms by (auto intro: rejects_errors_cong[OF assms])
next
  case (Unsubscribe t cb)
  then show ?thesis using assms by (auto intro: rejects_errors_cong[OF assms])
qed

lemma rejects_errors_run:
  assumes "rejects_errors s"
  shows "rejects_errors (run s evs)"
  using assms unfolding run_def
  by (induction evs arbitrary: s) (simp_all add: rejects_errors_step)

text \<open>The \<^verbatim>\<open>catch\<close> block turns the rejection by an Error into a structured failure.\<close>

lemma makeBet_continue_shape:
  assumes "makeBet_continue r = Reject v" and "\<forall>e. r = Reject e \<longrightarrow> instanceof_Error e"
  shows "\<exists>msg. v = JObj [(''success'', JBool False), (''error'', JStr msg)]"
  using assms by (cases r) (auto dest: instanceof_Error_message)

text \<open>
  Claim C10: whatever rejects the promise that \<^verbatim>\<open>makeBet\<close> returned (the local
  validation, the missing game identifier, an error signalled by the platform, the
  timeout, the missing parent window), the rejection value is an object
  \<^verbatim>\<open>{success: false, error: <string>}\<close>. This holds for a bet placed in any state an
  instance can reach, and in any state it can reach afterwards: every rejection the SDK
  makes on a Deferred is made with an Error, whose message the \<^verbatim>\<open>catch\<close> block reads.
\<close>

theorem makeBet_rejections_structured:
  assumes "s = run (ArcaidSDKInstanceImpl cfg parent) evs"
    and "s' = run (snd (makeBet s messageId roomDocId amount reason)) evs'"
    and "betPromiseState s' (fst (makeBet s messageId roomDocId amount reason)) = Some (Reject v)"
  shows "\<exists>msg. v = JObj [(''success'', JBool False), (''error'', JStr msg)]"
proof (cases "fst (makeBet s messageId roomDocId amount reason)")
  case (Rejected w)
  then have "\<exists>msg. w = failure msg"
    by (auto simp: makeBet_def Let_def split: if_splits prod.splits)
  with assms(3) Rejected show ?thesis
    by (auto simp: betPromiseState_def failure_def)
next
  case (Awaiting d)
  have "rejects_errors s"
    unfolding assms(1) by (rule rejects_errors_run[OF rejects_errors_construct])
  then have ok: "rejects_errors s'"
    unfolding assms(2) by (intro rejects_errors_run rejects_errors_makeBet)
  from assms(3) Awaiting obtain r where
    r: "map_of (settled s') d = Some r" "makeBet_continue r = Reject v"
    by (auto simp: betPromiseState_def promiseState_def)
  from r(1) have "(d, r) \<in> set (settled s')" by (rule map_of_SomeD)
  with ok have "\<forall>e. r = Reject e \<longrightarrow> instanceof_Error e"
    by (auto simp: rejects_errors_def list_all_iff)
  with r(2) show ?thesis by (rule makeBet_continue_shape)
qed

theorem makeBet_rejections_structured_witness:
  "betPromiseState
      (run (snd (makeBet (run (ArcaidSDKInstanceImpl [(''gameId'', JStr ''g1'')] False) [])
              ''sdk-msg-1-abc'' (JStr ''room1'') (JNum (Fin 5 ''5'')) JUndefined)) [])
      (fst (makeBet (run (ArcaidSDKInstanceImpl [(''gameId'', JStr ''g1'')] False) [])
              ''sdk-msg-1-abc'' (JStr ''room1'') (JNum (Fin 5 ''5'')) JUndefined))
     = Some (Reject (JObj [(''success'', JBool False), (''error'', JStr ''No parent window.'')]))
   \<and> (\<exists>msg. JObj [(''success'', JBool False), (''error'', JStr ''No parent window.'')]
             = JObj [(''success'', JBool False), (''error'', JStr msg)])"
proof -
  have h: "betPromiseState
      (run (snd (makeBet (run (ArcaidSDKInstanceImpl [(''gameId'', JStr ''g1'')] False) [])
              ''sdk-msg-1-abc'' (JStr ''room1'') (JNum (Fin 5 ''5'')) JUndefined)) [])
      (fst (makeBet (run (ArcaidSDKInstanceImpl [(''gameId'', JStr ''g1'')] False) [])
              ''sdk-msg-1-abc'' (JStr ''room1'') (JNum (Fin 5 ''5'')) JUndefined))
     = Some (Reject (JObj [(''success'', JBool False), (''error'', JStr ''No parent window.'')]))"
    by (simp add: run_def makeBet_def requestParent_def ArcaidSDKInstanceImpl_def
        checkAndResolveReady_def lookup_def assign_def js_or_def Let_def
        betPromiseState_def promiseState_def)
  show ?thesis
    using h makeBet_rejections_structured [OF refl refl h] by simp
qed

section \<open>The configuration merge of the loader\<close>









text \<open>
  Claim C6 holds that the developer's \<^verbatim>\<open>arcaidApiBaseUrl\<close> and \<^verbatim>\<open>sdkVersion\<close> survive the
  merge when the developer specified them. The spread \<^verbatim>\<open>{...initConfigOptions,
  ...platformConfig}\<close> has already written the platform's values over the developer's
  when the two guarded assignments are reached, and these can only write the platform's
  values again: with developer values \<^verbatim>\<open>1.0.0\<close> and \<^verbatim>\<open>https://dev.example/api\<close> and
  platform values \<^verbatim>\<open>2.0.0\<close> and \<^verbatim>\<open>https://api.arcaid.xyz\<close>, the merged configuration
  holds the platform's.
\<close>

theorem platform_overrides_developer_values:
  "map_sum id (\<lambda>m. (lookup m ''sdkVersion'', lookup m ''arcaidApiBaseUrl''))
     (mergeConfig
        (js_or (JObj [(''sdkVersion'', JStr ''1.0.0''),
                      (''arcaidApiBaseUrl'', JStr ''https://dev.example/api'')]) (JObj []))
        (JObj [(''gameId'', JStr ''g1''), (''sdkVersion'', JStr ''2.0.0''),
               (''arcaidApiBaseUrl'', JStr ''https://api.arcaid.xyz'')]))
   = Inr (JStr ''2.0.0'', JStr ''https://api.arcaid.xyz'')"
  by (simp add: mergeConfig_def resolveCoreSdkUrl_def Let_def js_or_def lookup_def assign_def
      assign_if_def spread2_def)

text \<open>
  The same for every input: whatever the developer specified, a \<^verbatim>\<open>sdkVersion\<close> or
  \<^verbatim>\<open>arcaidApiBaseUrl\<close> property of the platform's configuration object is the merged
  value.
\<close>

lemma platform_value_wins:
  assumes "mergeConfig initOptions (JObj platform) = Inr mergedConfig"
    and "k \<in> fst ` set platform" and "k = ''sdkVersion'' \<or> k = ''arcaidApiBaseUrl''"
  shows "lookup mergedConfig k = lookup platform k"
proof -
  let ?m0 = "spread2 (own_enumerable initOptions) platform"
  from assms(1) have "\<exists>c1 c2 c3 u. mergedConfig =
      assign (assign_if c3
                (assign_if c2
                   (assign_if c1 ?m0 ''userSession'' (lookup platform ''userSession''))
                   ''arcaidApiBaseUrl'' (lookup platform ''arcaidApiBaseUrl''))
                ''sdkVersion'' (lookup platform ''sdkVersion''))
        ''coreSdkUrl'' u"
    unfolding mergeConfig_def
    by (simp only: Let_def nullish.simps if_False js_get.simps own_enumerable.simps)
       (blast dest!: map_sum_id_Inr)
  then obtain c1 c2 c3 u where m: "mergedConfig =
      assign (assign_if c3
                (assign_if c2
                   (assign_if c1 ?m0 ''userSession'' (lookup platform ''userSession''))
                   ''arcaidApiBaseUrl'' (lookup platform ''arcaidApiBaseUrl''))
                ''sdkVersion'' (lookup platform ''sdkVersion''))
        ''coreSdkUrl'' u"
    by blast
  have 0: "lookup ?m0 k = lookup platform k"
    using assms(2) by (simp add: lookup_spread2)
  show ?thesis
    unfolding m using assms(3) 0
    by (auto simp: lookup_assign lookup_assign_if)
qed

section \<open>Idempotence of the global initializer\<close>

lemma loader_ok_script: "loader_ok (loaderScript framed parent)"
  by (simp add: loader_ok_def loaderScript_def)

lemma afterConfig_fields [simp]:
  "coreSdkPromise (afterConfig l c) = coreSdkPromise l"
  "configRequests (afterConfig l c) = configRequests l"
  "nextPromise (afterConfig l c) = nextPromise l"
  by (simp_all add: afterConfig_def initFailed_def Let_def split: option.splits sum.splits)

lemma initFailed_fields [simp]:
  "coreSdkPromise (initFailed l e) = coreSdkPromise l"
  "nextPromise (initFailed l e) = nextPromise l"
  "configRequests (initFailed l e) = configRequests l"
  "scriptLoads (initFailed l e) = scriptLoads l"
  by (simp_all add: initFailed_def split: sum.splits)

lemma initFailed_task:
  "task (initFailed l e) \<noteq> NotStarted \<and> task (initFailed l e) \<noteq> AwaitingConfig"
  by (simp add: initFailed_def split: sum.splits)

lemma afterConfig_loads:
  "scriptLoads l = [] \<Longrightarrow> length (scriptLoads (afterConfig l c)) \<le> 1"
  by (simp add: afterConfig_def Let_def split: option.splits sum.splits)

lemma afterConfig_started:
  "initConfigOptions l \<noteq> None \<Longrightarrow>
   task (afterConfig l c) \<noteq> NotStarted \<and> task (afterConfig l c) \<noteq> AwaitingConfig"
  by (auto simp: afterConfig_def Let_def initFailed_task split: option.splits sum.splits)

text \<open>
  A call of \<^verbatim>\<open>init\<close> returns the stored promise when there is one, and stores the promise
  it creates otherwise.
\<close>

lemma loader_ok_init:
  assumes "loader_ok l" and "init l devConfig = (p, l')"
  shows "loader_ok l' \<and> coreSdkPromise l' = Some p
         \<and> (case coreSdkPromise l of Some q \<Rightarrow> p = q | None \<Rightarrow> p = nextPromise l)"
proof (cases "coreSdkPromise l")
  case (Some q)
  with assms show ?thesis
    by (auto simp: init_def Let_def loader_ok_def)
next
  case None
  with assms(1) have e: "sdkInitializationError l = None" "task l = NotStarted"
    "configRequests l = 0" "scriptLoads l = []"
    by (simp_all add: loader_ok_def)
  define l2 where "l2 = l\<lparr>initCalled := True,
                          initConfigOptions := Some (js_or devConfig (JObj [])),
                          nextPromise := Suc (nextPromise l)\<rparr>"
  define l3 where "l3 = (if isInIframe l2 then requestConfigFromParent l2
                         else afterConfig l2 (JObj []))"
  have l': "l' = l3\<lparr>coreSdkPromise := Some p\<rparr>" and p: "p = nextPromise l"
    using assms(2) None e by (auto simp: init_def Let_def l2_def l3_def)
  have o2: "initConfigOptions l2 \<noteq> None" "scriptLoads l2 = []" "configRequests l2 = 0"
    using e by (simp_all add: l2_def)
  have a: "length (scriptLoads (afterConfig l2 c)) \<le> 1"
       "task (afterConfig l2 c) \<noteq> NotStarted" "task (afterConfig l2 c) \<noteq> AwaitingConfig"
       "configRequests (afterConfig l2 c) = 0" for c
    using afterConfig_loads[OF o2(2)] afterConfig_started[OF o2(1)] o2(3) by simp_all
  have "loader_ok (l3\<lparr>coreSdkPromise := Some p\<rparr>)"
    unfolding l3_def requestConfigFromParent_def loader_ok_def
    using a o2 by auto
  then show ?thesis using l' p None by simp
qed

lemma loader_ok_afterConfig:
  assumes "loader_ok l" and "task l = AwaitingConfig"
  shows "loader_ok (afterConfig l c)"
proof -
  have c: "coreSdkPromise l \<noteq> None" "scriptLoads l = []" "configRequests l \<le> 1"
    using assms by (auto simp: loader_ok_def)
  have t: "task (afterConfig l c) \<noteq> NotStarted"
    "task (afterConfig l c) = AwaitingConfig \<longrightarrow> scriptLoads (afterConfig l c) = []"
    using assms(2) c(2)
    by (auto simp: afterConfig_def Let_def initFailed_task split: option.splits sum.splits)
  show ?thesis
    unfolding loader_ok_def
    using c t afterConfig_loads[OF c(2), of c] by simp
qed

lemma loader_ok_initFailed:
  assumes "loader_ok l" and "task l = AwaitingScript m"
  shows "loader_ok (initFailed l e)"
  using assms initFailed_task[of l e] by (auto simp: loader_ok_def)

text \<open>Every event but a call of \<^verbatim>\<open>init\<close> returns no promise and stores none.\<close>

lemma loader_ok_quiet_step:
  assumes "loader_ok l" and "\<forall>devConfig. e \<noteq> Init devConfig" and "loader_step l e = (ps, l')"
  shows "loader_ok l' \<and> ps = [] \<and> coreSdkPromise l' = coreSdkPromise l
         \<and> nextPromise l' = nextPromise l"
proof (cases e)
  case (Init devConfig)
  with assms(2) show ?thesis by simp
next
  case (ConfigResponse payload)
  with assms show ?thesis by (auto simp: loader_ok_afterConfig)
next
  case ConfigTimeout
  with assms show ?thesis by (auto simp: loader_ok_afterConfig)
next
  case (ScriptLoaded valid)
  show ?thesis
  proof (cases "task l")
    case (AwaitingScript m)
    have "loader_ok (l\<lparr>task := Fulfilled m\<rparr>)"
      using assms(1) AwaitingScript by (auto simp: loader_ok_def)
    with ScriptLoaded assms(3) AwaitingScript loader_ok_initFailed[OF assms(1) AwaitingScript]
    show ?thesis by auto
  qed (use ScriptLoaded assms in auto)
next
  case (ScriptFailed err)
  show ?thesis
  proof (cases "task l")
    case (AwaitingScript m)
    with ScriptFailed assms(1,3) loader_ok_initFailed[OF assms(1) AwaitingScript]
    show ?thesis by (auto split: sum.splits)
  qed (use ScriptFailed assms in auto)
qed

lemma loader_ok_step:
  assumes "loader_ok l" and "loader_step l e = (ps, l')"
  shows "loader_ok l'
      \<and> (case coreSdkPromise l of
            Some q \<Rightarrow> coreSdkPromise l' = Some q \<and> (\<forall>p \<in> set ps. p = q)
          | None \<Rightarrow> (ps = [] \<and> coreSdkPromise l' = None \<and> nextPromise l' = nextPromise l)
                    \<or> (ps = [nextPromise l] \<and> coreSdkPromise l' = Some (nextPromise l)))"
proof (cases "\<exists>devConfig. e = Init devConfig")
  case True
  then obtain devConfig where e: "e = Init devConfig" by blast
  obtain p l1 where i: "init l devConfig = (p, l1)" by (cases "init l devConfig")
  with e assms(2) have "ps = [p]" "l' = l1" by simp_all
  with loader_ok_init[OF assms(1) i] show ?thesis
    by (auto split: option.splits)
next
  case False
  then have "\<forall>devConfig. e \<noteq> Init devConfig" by blast
  from loader_ok_quiet_step[OF assms(1) this assms(2)] show ?thesis
    by (auto split: option.splits)
qed

lemma loader_ok_run:
  assumes "loader_ok l" and "loader_run l evs = (ps, l')"
  shows "loader_ok l'
      \<and> (case coreSdkPromise l of
            Some q \<Rightarrow> (\<forall>p \<in> set ps. p = q)
          | None \<Rightarrow> (\<forall>p \<in> set ps. p = nextPromise l))"
  using assms
proof (induction evs arbitrary: l ps l')
  case Nil
  then show ?case by (auto split: option.splits)
next
  case (Cons e es)
  obtain p1 l1 where s: "loader_step l e = (p1, l1)" by (cases "loader_step l e")
  obtain p2 l2 where r: "loader_run l1 es = (p2, l2)" by (cases "loader_run l1 es")
  from Cons.prems(2) s r have eq: "ps = p1 @ p2" "l' = l2" by simp_all
  note st = loader_ok_step[OF Cons.prems(1) s]
  then have ok1: "loader_ok l1" by simp
  note ih = Cons.IH[OF ok1 r]
  show ?case
    using st ih eq by (auto split: option.splits)
qed

text \<open>
  Claim C7: on a freshly loaded loader, in a framed or unframed window, however the
  calls of \<^verbatim>\<open>init\<close> (with any arguments) are interleaved with the parent's answer, the
  handshake timeout and the outcome of the script load, every call returns the promise
  the first call returned, at most one configuration handshake is posted and
  \<^verbatim>\<open>loadScript\<close> is called at most once.
\<close>

theorem init_idempotent:
  "(\<forall>p \<in> set (fst (loader_run (loaderScript framed parent) evs)).
       p = hd (fst (loader_run (loaderScript framed parent) evs)))
   \<and> configRequests (snd (loader_run (loaderScript framed parent) evs)) \<le> 1
   \<and> length (scriptLoads (snd (loader_run (loaderScript framed parent) evs))) \<le> 1"
proof -
  obtain ps l where r: "loader_run (loaderScript framed parent) evs = (ps, l)"
    by (cases "loader_run (loaderScript framed parent) evs")
  have "loader_ok l \<and> (\<forall>p \<in> set ps. p = 0)"
    using loader_ok_run[OF loader_ok_script r] by (simp add: loaderScript_def)
  then have "(\<forall>p \<in> set ps. p = hd ps) \<and> configRequests l \<le> 1 \<and> length (scriptLoads l) \<le> 1"
    by (cases ps) (auto simp: loader_ok_def)
  with r show ?thesis by simp
qed

theorem init_idempotent_witness:
  "fst (loader_run (loaderScript True True)
          [Init (JObj [(''coreSdkUrl'', JStr ''X'')]), Init JUndefined,
           ConfigResponse (JObj [(''gameId'', JStr ''g1'')]), Init JNull,
           ScriptLoaded True, Init (JObj [])]) = [0, 0, 0, 0]
   \<and> configRequests (snd (loader_run (loaderScript True True)
          [Init (JObj [(''coreSdkUrl'', JStr ''X'')]), Init JUndefined,
           ConfigResponse (JObj [(''gameId'', JStr ''g1'')]), Init JNull,
           ScriptLoaded True, Init (JObj [])])) = 1
   \<and> scriptLoads (snd (loader_run (loaderScript True True)
          [Init (JObj [(''coreSdkUrl'', JStr ''X'')]), Init JUndefined,
           ConfigResponse (JObj [(''gameId'', JStr ''g1'')]), Init JNull,
           ScriptLoaded True, Init (JObj [])])) = [JStr ''X'']"
proof -
  have e: "loader_run (loaderScript True True)
          [Init (JObj [(''coreSdkUrl'', JStr ''X'')]), Init JUndefined,
           ConfigResponse (JObj [(''gameId'', JStr ''g1'')]), Init JNull,
           ScriptLoaded True, Init (JObj [])]
      = ([0, 0, 0, 0],
         \<lparr>initCalled = True, coreSdkPromise = Some 0, sdkInitializationError = None,
          initConfigOptions = Some (JObj [(''coreSdkUrl'', JStr ''X'')]), nextPromise = 1,
          isInIframe = True, parentPresent = True, configRequests = 1,
          scriptLoads = [JStr ''X''],
          task = Fulfilled [(''coreSdkUrl'', JStr ''X''), (''gameId'', JStr ''g1'')]\<rparr>)"
    by (simp add: loaderScript_def init_def requestConfigFromParent_def afterConfig_def
        mergeConfig_def resolveCoreSdkUrl_def js_or_def Let_def lookup_def assign_def
        assign_if_def spread2_def)
  show ?thesis
    using init_idempotent [of True True
          "[Init (JObj [(''coreSdkUrl'', JStr ''X'')]), Init JUndefined,
           ConfigResponse (JObj [(''gameId'', JStr ''g1'')]), Init JNull,
           ScriptLoaded True, Init (JObj [])]"]
    unfolding e by simp
qed

end
